theory Spec2Isabelle
  imports Main "HOL-Library.AList"
begin

section \<open>The whiteboard client: data model\<close>

text \<open>
  The development follows the \<^verbatim>\<open>Whiteboard\<close> component (the first file of
  \<^verbatim>\<open>src/unnamed/part_000\<close>). The component owns a Fabric canvas, a socket, two
  stacks of snapshots and some tool settings. Every handler of the component becomes a
  function from the component state to the component state; what a handler sends over
  the socket is appended to the field \<open>emitted\<close>, what it prints is appended to
  \<open>console\<close>.

  Fabric, socket.io and uuid are libraries outside the repository. Their part is kept
  small and explicit:
  \<^item> \<^verbatim>\<open>canvas.add\<close> appends the object and fires \<^verbatim>\<open>object:added\<close>;
    \<^verbatim>\<open>canvas.remove\<close> removes the object and fires \<^verbatim>\<open>object:removed\<close>;
    \<^verbatim>\<open>canvas.clear\<close> removes every object, one \<^verbatim>\<open>remove\<close> each, and resets the
    background;
  \<^item> \<^verbatim>\<open>canvas.toJSON()\<close> records the object collection, each object serialised
    without extra properties and so without its identifier, and the background colour;
  \<^item> \<^verbatim>\<open>canvas.loadFromJSON(json, f)\<close> is the one of Fabric 6, the version that exports
    \<^verbatim>\<open>classRegistry\<close> (line 2): it reconstructs the recorded objects, calls \<^verbatim>\<open>f\<close> once
    for each object reconstructed, and only then, when every object was reconstructed,
    clears the canvas, adds the objects, one \<^verbatim>\<open>add\<close> each, and sets the background.
    For a record without objects \<^verbatim>\<open>f\<close> is never called. The whole is taken to run
    before the next event is handled, so that undo, redo and the \<^verbatim>\<open>drawing\<close> transfer
    are one step each;
  \<^item> \<^verbatim>\<open>classRegistry.getClass\<close>, \<^verbatim>\<open>klass.fromObject\<close> and \<^verbatim>\<open>uuidv4\<close> are parameters
    (record \<open>env\<close>), so every result below holds for whatever they return.
  An object is identified with its value (identifier, type tag and property bag); its
  type tag is the name of its class, as Fabric 6 serialises it.
  Editing a text in place belongs to the drawing surface: a handler that ends it is
  told whether a changed text was being edited (parameter \<open>edited\<close>).
  The field \<open>isRemote\<close> is \<^verbatim>\<open>canvas._isRemote\<close>, the echo-suppression gate of the
  specification: it is engaged when the field is true.
\<close>

datatype jsval = JNum int | JStr string | JBool bool

record fobj =
  obj_id :: "string option"
  obj_type :: string
  props :: "(string \<times> jsval) list"

record snapshot =
  snap_objects :: "fobj list"
  snap_background :: string

text \<open>What the client sends: the event name and the fields of its payload.\<close>

datatype emit =
    JoinRoom string string string string
  | ObjectAdded string fobj
  | ObjectModified string fobj
  | ObjectRemoved string "string option"
  | CanvasAction string string

text \<open>What the client may be sent: the event name and its payload.\<close>

datatype incoming =
    RoomJoined
  | AccessDenied string
  | InObjectAdded fobj
  | InObjectModified fobj
  | InObjectRemoved "string option"
  | InDrawing snapshot
  | InCanvasAction string

datatype logline = Warn string | Error string | Alert string

text \<open>
  The props of the component and the library functions it calls. \<open>getClass\<close> may throw
  (\<open>Inl\<close>), return nothing (\<open>Inr None\<close>) or return a class, which is its
  \<^verbatim>\<open>fromObject\<close>: a reconstruction that throws or rejects (\<open>Inl\<close>) or yields an object.
  \<open>uuidv4 n\<close> is the value of the \<open>n\<close>-th call of \<^verbatim>\<open>uuidv4()\<close>.
\<close>

record env =
  roomId :: string
  password :: string
  role :: string
  username :: string
  getClass :: "string \<Rightarrow> string + (fobj \<Rightarrow> string + fobj) option"
  uuidv4 :: "nat \<Rightarrow> string"

record state =
  objects :: "fobj list"
  backgroundColor :: string
  isRemote :: bool
  isClearing :: bool
  tool :: string
  color :: string
  fontSize :: int
  fontFamily :: string
  history :: "snapshot list"
  redoStack :: "snapshot list"
  emitted :: "emit list"
  console :: "logline list"
  uuid_calls :: nat

record mouse_event =
  target :: "fobj option"
  pointer_x :: int
  pointer_y :: int

section \<open>Library calls\<close>

definition socket_emit :: "state \<Rightarrow> emit \<Rightarrow> state" where
  "socket_emit s m = s\<lparr>emitted := emitted s @ [m]\<rparr>"

definition console_log :: "state \<Rightarrow> logline \<Rightarrow> state" where
  "console_log s l = s\<lparr>console := console s @ [l]\<rparr>"

text \<open>JavaScript's \<^verbatim>\<open>!x\<close> on an identifier: true of \<^verbatim>\<open>undefined\<close> and of the empty string.\<close>

definition falsy :: "string option \<Rightarrow> bool" where
  "falsy i = (case i of None \<Rightarrow> True | Some x \<Rightarrow> x = [])"

text \<open>\<^verbatim>\<open>toObject(['id'])\<close>: the serialisation of an object, its identifier included.\<close>

definition toObject :: "fobj \<Rightarrow> fobj" where
  "toObject t = t"

definition toJSON :: "state \<Rightarrow> snapshot" where
  "toJSON s =
     \<lparr>snap_objects = map (\<lambda>t. t\<lparr>obj_id := None\<rparr>) (objects s),
      snap_background = backgroundColor s\<rparr>"

section \<open>Change capture (lines 59-71 and 261-287)\<close>

definition assignId :: "env \<Rightarrow> state \<Rightarrow> fobj \<Rightarrow> fobj \<times> state" where
  "assignId e s t =
     (if falsy (obj_id t)
      then (t\<lparr>obj_id := Some (uuidv4 e (uuid_calls s))\<rparr>, s\<lparr>uuid_calls := uuid_calls s + 1\<rparr>)
      else (t, s))"

definition emitAdded :: "env \<Rightarrow> state \<Rightarrow> fobj \<Rightarrow> state" where
  "emitAdded e s t =
     (if isRemote s then s else socket_emit s (ObjectAdded (roomId e) (toObject t)))"

definition emitModified :: "env \<Rightarrow> state \<Rightarrow> fobj \<Rightarrow> state" where
  "emitModified e s t =
     (if isRemote s then s else socket_emit s (ObjectModified (roomId e) (toObject t)))"

definition emitRemoved :: "env \<Rightarrow> state \<Rightarrow> fobj \<Rightarrow> state" where
  "emitRemoved e s t =
     (if isRemote s then s else socket_emit s (ObjectRemoved (roomId e) (obj_id t)))"

text \<open>
  \<^verbatim>\<open>canvas.add(t)\<close>: the object joins the collection and \<^verbatim>\<open>object:added\<close> fires; its
  listeners run in the order of their registration, \<open>assignId\<close> first, then
  \<open>emitAdded\<close>. \<open>assignId\<close> writes into the object itself, so the caller's reference
  sees the identifier too: the object as stored is returned with the state.
\<close>

definition canvas_add :: "env \<Rightarrow> state \<Rightarrow> fobj \<Rightarrow> state \<times> fobj" where
  "canvas_add e s t =
     (let (t', s1) = assignId e s t;
          s2 = s1\<lparr>objects := objects s1 @ [t']\<rparr>
      in (emitAdded e s2 t', t'))"

text \<open>\<^verbatim>\<open>canvas.remove(t)\<close>: an object of the collection leaves it and \<^verbatim>\<open>object:removed\<close> fires.\<close>

definition canvas_remove :: "env \<Rightarrow> state \<Rightarrow> fobj \<Rightarrow> state" where
  "canvas_remove e s t =
     (if t \<in> set (objects s)
      then emitRemoved e (s\<lparr>objects := remove1 t (objects s)\<rparr>) t
      else s)"

definition canvas_clear :: "env \<Rightarrow> state \<Rightarrow> state" where
  "canvas_clear e s =
     (fold (\<lambda>t s'. canvas_remove e s' t) (objects s) s)\<lparr>backgroundColor := []\<rparr>"

text \<open>
  The reconstruction inside \<^verbatim>\<open>loadFromJSON\<close>: the class of each record is looked up in
  turn, and a lookup that throws or finds nothing stops the loop there; the
  reconstructions started before it still run. \<open>enliven\<close> is the list of the objects
  reconstructed.
\<close>

definition has_class :: "env \<Rightarrow> fobj \<Rightarrow> bool" where
  "has_class e obj =
     (case getClass e (obj_type obj) of
        Inl err \<Rightarrow> False
      | Inr None \<Rightarrow> False
      | Inr (Some klass) \<Rightarrow> True)"

definition reconstructed :: "env \<Rightarrow> fobj \<Rightarrow> fobj list" where
  "reconstructed e obj =
     (case getClass e (obj_type obj) of
        Inl err \<Rightarrow> []
      | Inr None \<Rightarrow> []
      | Inr (Some klass) \<Rightarrow> (case klass obj of Inl err \<Rightarrow> [] | Inr t \<Rightarrow> [t]))"

definition enliven :: "env \<Rightarrow> fobj list \<Rightarrow> fobj list" where
  "enliven e objs = concat (map (reconstructed e) (takeWhile (has_class e) objs))"

text \<open>
  \<open>reviver\<close> is the function given as second argument. When a reconstruction has
  failed the promise is rejected, nobody handles the rejection, and the canvas keeps
  its content.
\<close>

definition loadFromJSON :: "env \<Rightarrow> state \<Rightarrow> snapshot \<Rightarrow> (state \<Rightarrow> state) \<Rightarrow> state" where
  "loadFromJSON e s j reviver =
     (let enlived = enliven e (snap_objects j);
          s1 = fold (\<lambda>t s'. reviver s') enlived s
      in if length enlived = length (snap_objects j)
         then (fold (\<lambda>t s'. fst (canvas_add e s' t)) enlived (canvas_clear e s1))
                \<lparr>backgroundColor := snap_background j\<rparr>
         else s1)"

section \<open>Socket handlers (lines 183-259)\<close>

text \<open>
  The handler of \<^verbatim>\<open>object:added\<close> is asynchronous. \<open>object_added_begin\<close> is what runs
  up to the \<^verbatim>\<open>await\<close>: it returns the state and, when a class was found, the outcome of
  the reconstruction that is awaited. \<open>object_added_resume\<close> is what runs after it.
  The \<^verbatim>\<open>finally\<close> block is \<open>release\<close>.
\<close>

definition release :: "state \<Rightarrow> state" where
  "release s = s\<lparr>isRemote := False\<rparr>"

definition object_added_begin ::
  "env \<Rightarrow> state \<Rightarrow> fobj \<Rightarrow> state \<times> (string + fobj) option" where
  "object_added_begin e s obj =
     (let s1 = s\<lparr>isRemote := True\<rparr>
      in case getClass e (obj_type obj) of
           Inl err \<Rightarrow> (release (console_log s1 (Error (''Error restoring object: '' @ err))), None)
         | Inr None \<Rightarrow>
             (release (console_log s1 (Warn (''Unknown fabric object type: '' @ obj_type obj))), None)
         | Inr (Some klass) \<Rightarrow> (s1, Some (klass obj)))"

definition object_added_resume :: "env \<Rightarrow> state \<Rightarrow> string + fobj \<Rightarrow> state" where
  "object_added_resume e s r =
     release
       (case r of
          Inl err \<Rightarrow> console_log s (Error (''Error restoring object: '' @ err))
        | Inr fabricObj \<Rightarrow>
            (if \<not> list_ex (\<lambda>o'. obj_id o' = obj_id fabricObj) (objects s)
             then fst (canvas_add e s fabricObj)
             else s))"

definition on_object_added :: "env \<Rightarrow> state \<Rightarrow> fobj \<Rightarrow> state" where
  "on_object_added e s obj =
     (case object_added_begin e s obj of
        (s', None) \<Rightarrow> s'
      | (s', Some r) \<Rightarrow> object_added_resume e s' r)"

fun update_first :: "('a \<Rightarrow> bool) \<Rightarrow> ('a \<Rightarrow> 'a) \<Rightarrow> 'a list \<Rightarrow> 'a list" where
  "update_first P f [] = []"
| "update_first P f (x # xs) = (if P x then f x # xs else x # update_first P f xs)"

text \<open>
  \<^verbatim>\<open>target.set(obj)\<close>: every property of the payload is written onto the target; the
  identifier is the payload's, which is the target's own.
\<close>

definition set_props :: "fobj \<Rightarrow> fobj \<Rightarrow> fobj" where
  "set_props t obj =
     t\<lparr>obj_id := obj_id obj,
       props := fold (\<lambda>(k, v) ps. AList.update k v ps) (props obj) (props t)\<rparr>"

definition on_object_modified :: "env \<Rightarrow> state \<Rightarrow> fobj \<Rightarrow> state" where
  "on_object_modified e s obj =
     (let s1 = s\<lparr>isRemote := True\<rparr>;
          s2 = (case find (\<lambda>o'. obj_id o' = obj_id obj) (objects s1) of
                  None \<Rightarrow> s1
                | Some t \<Rightarrow>
                    s1\<lparr>objects :=
                         update_first (\<lambda>o'. obj_id o' = obj_id obj) (\<lambda>o'. set_props o' obj)
                           (objects s1)\<rparr>)
      in s2\<lparr>isRemote := False\<rparr>)"

definition on_object_removed :: "env \<Rightarrow> state \<Rightarrow> string option \<Rightarrow> state" where
  "on_object_removed e s i =
     (let s1 = s\<lparr>isRemote := True\<rparr>;
          s2 = (case find (\<lambda>o'. obj_id o' = i) (objects s1) of
                  None \<Rightarrow> s1
                | Some t \<Rightarrow> canvas_remove e s1 t)
      in s2\<lparr>isRemote := False\<rparr>)"

text \<open>
  The handler of \<^verbatim>\<open>drawing\<close> (lines 248-254): the function it gives to
  \<^verbatim>\<open>loadFromJSON\<close> releases the gate.
\<close>

definition on_drawing :: "env \<Rightarrow> state \<Rightarrow> snapshot \<Rightarrow> state" where
  "on_drawing e s j =
     loadFromJSON e (s\<lparr>isRemote := True\<rparr>) j (\<lambda>s'. s'\<lparr>isRemote := False\<rparr>)"

text \<open>
  The listeners registered on the socket: \<^verbatim>\<open>room-joined\<close>, \<^verbatim>\<open>access-denied\<close>,
  \<^verbatim>\<open>object:added\<close>, \<^verbatim>\<open>object:modified\<close>, \<^verbatim>\<open>object:removed\<close> and \<^verbatim>\<open>drawing\<close>. An event
  with no listener changes nothing: that is the case of \<^verbatim>\<open>canvas-action\<close>.
\<close>

fun socket_receive :: "env \<Rightarrow> state \<Rightarrow> incoming \<Rightarrow> state" where
  "socket_receive e s RoomJoined = s"
| "socket_receive e s (AccessDenied msg) = console_log s (Alert msg)"
| "socket_receive e s (InObjectAdded obj) = on_object_added e s obj"
| "socket_receive e s (InObjectModified obj) = on_object_modified e s obj"
| "socket_receive e s (InObjectRemoved i) = on_object_removed e s i"
| "socket_receive e s (InDrawing j) = on_drawing e s j"
| "socket_receive e s (InCanvasAction a) = s"

section \<open>Local handlers\<close>

text \<open>
  The tool change (lines 290-295) first ends the editing of the active object, if it is
  a text being edited. Fabric's \<^verbatim>\<open>exitEditing\<close> fires \<^verbatim>\<open>object:modified\<close> for the text
  when its content was changed while it was edited. The editing itself belongs to the
  drawing surface: \<open>edited\<close> is that text when there is one being edited with changed
  content, and \<open>None\<close> otherwise.
\<close>

definition exitEditing :: "env \<Rightarrow> state \<Rightarrow> fobj option \<Rightarrow> state" where
  "exitEditing e s edited = (case edited of None \<Rightarrow> s | Some t \<Rightarrow> emitModified e s t)"

definition handleToolChange :: "env \<Rightarrow> state \<Rightarrow> fobj option \<Rightarrow> string \<Rightarrow> state" where
  "handleToolChange e s edited newTool = (exitEditing e s edited)\<lparr>tool := newTool\<rparr>"

text \<open>The eraser's \<^verbatim>\<open>mouse:down\<close> listener (lines 117-126).\<close>

definition handleEraserClick :: "env \<Rightarrow> state \<Rightarrow> mouse_event \<Rightarrow> state" where
  "handleEraserClick e s ev =
     (case target ev of
        None \<Rightarrow> s
      | Some t \<Rightarrow> canvas_remove e (socket_emit s (ObjectRemoved (roomId e) (obj_id t))) t)"

text \<open>The text tool's \<^verbatim>\<open>mouse:down\<close> listener (lines 138-160).\<close>

definition new_text :: "env \<Rightarrow> state \<Rightarrow> mouse_event \<Rightarrow> fobj" where
  "new_text e s ev =
     \<lparr>obj_id = Some (uuidv4 e (uuid_calls s)),
      obj_type = ''IText'',
      props = [(''text'', JStr ''Type here...''),
               (''left'', JNum (pointer_x ev)),
               (''top'', JNum (pointer_y ev)),
               (''fontSize'', JNum (fontSize s)),
               (''fill'', JStr (color s)),
               (''fontFamily'', JStr (fontFamily s)),
               (''padding'', JNum 8),
               (''borderColor'', JStr ''#4a90e2''),
               (''cornerColor'', JStr ''#4a90e2''),
               (''cornerSize'', JNum 10),
               (''transparentCorners'', JBool False)]\<rparr>"

definition handleTextClick :: "env \<Rightarrow> state \<Rightarrow> mouse_event \<Rightarrow> state" where
  "handleTextClick e s ev =
     (case target ev of
        Some t \<Rightarrow> s
      | None \<Rightarrow>
          (let text = new_text e s ev;
               (s1, text') = canvas_add e (s\<lparr>uuid_calls := uuid_calls s + 1\<rparr>) text
           in socket_emit s1 (ObjectAdded (roomId e) (toObject text'))))"

text \<open>
  The two listeners are registered on \<^verbatim>\<open>mouse:down\<close> only while their tool is the
  current one (lines 115 and 136).
\<close>

definition mouse_down :: "env \<Rightarrow> state \<Rightarrow> mouse_event \<Rightarrow> state" where
  "mouse_down e s ev =
     (if tool s = ''eraser'' then handleEraserClick e s ev
      else if tool s = ''text'' then handleTextClick e s ev
      else s)"

text \<open>
  The drawing surface itself: a finished freehand stroke is added to the canvas, and an
  object the participant has moved or resized is replaced by its new value, with
  \<^verbatim>\<open>object:modified\<close> fired for it.
\<close>

definition path_created :: "env \<Rightarrow> state \<Rightarrow> fobj \<Rightarrow> state" where
  "path_created e s path = fst (canvas_add e s path)"

definition object_transformed :: "env \<Rightarrow> state \<Rightarrow> fobj \<Rightarrow> fobj \<Rightarrow> state" where
  "object_transformed e s t t' =
     (if t \<in> set (objects s)
      then emitModified e (s\<lparr>objects := update_first (\<lambda>o'. o' = t) (\<lambda>o'. t') (objects s)\<rparr>) t'
      else s)"

text \<open>
  Typing into a text, and a change of colour or font while a text is the active object
  (lines 168-181), write into the object without any notification.
\<close>

definition object_restyled :: "state \<Rightarrow> fobj \<Rightarrow> fobj \<Rightarrow> state" where
  "object_restyled s t t' =
     s\<lparr>objects := update_first (\<lambda>o'. o' = t) (\<lambda>o'. t') (objects s)\<rparr>"

subsection \<open>Shapes (lines 383-417)\<close>

definition canvas_width :: int where
  "canvas_width = 800"

definition canvas_height :: int where
  "canvas_height = 600"

definition new_rect :: "env \<Rightarrow> state \<Rightarrow> fobj" where
  "new_rect e s =
     \<lparr>obj_id = Some (uuidv4 e (uuid_calls s)),
      obj_type = ''Rect'',
      props = [(''fill'', JStr (color s)),
               (''width'', JNum 100),
               (''height'', JNum 100),
               (''left'', JNum (canvas_width div 2 - 50)),
               (''top'', JNum (canvas_height div 2 - 50))]\<rparr>"

definition addRectangle :: "env \<Rightarrow> state \<Rightarrow> fobj option \<Rightarrow> state" where
  "addRectangle e s edited =
     (let s0 = handleToolChange e s edited ''select'';
          rect = new_rect e s0;
          (s1, rect') = canvas_add e (s0\<lparr>uuid_calls := uuid_calls s0 + 1\<rparr>) rect
      in socket_emit s1 (ObjectAdded (roomId e) (toObject rect')))"

definition new_circle :: "env \<Rightarrow> state \<Rightarrow> fobj" where
  "new_circle e s =
     \<lparr>obj_id = Some (uuidv4 e (uuid_calls s)),
      obj_type = ''Circle'',
      props = [(''fill'', JStr (color s)),
               (''radius'', JNum 50),
               (''left'', JNum (canvas_width div 2)),
               (''top'', JNum (canvas_height div 2))]\<rparr>"

definition addCircle :: "env \<Rightarrow> state \<Rightarrow> fobj option \<Rightarrow> state" where
  "addCircle e s edited =
     (let s0 = handleToolChange e s edited ''select'';
          circle = new_circle e s0;
          (s1, circle') = canvas_add e (s0\<lparr>uuid_calls := uuid_calls s0 + 1\<rparr>) circle
      in socket_emit s1 (ObjectAdded (roomId e) (toObject circle')))"

subsection \<open>Undo, redo and clear (lines 297-381)\<close>

text \<open>
  \<open>historyRef\<close> and \<open>redoStackRef\<close> are refreshed from \<open>history\<close> and \<open>redoStack\<close> by an
  effect after a render (lines 31-35): a handler reads in them the two stacks as they
  are when it is entered, and so does, each time it is called, the function it gives to
  \<^verbatim>\<open>loadFromJSON\<close>. The first argument is the parameter \<^verbatim>\<open>remote\<close> of the source. The
  \<^verbatim>\<open>canvas-action\<close> is emitted before the handler returns, the load runs after it.
\<close>

definition handleUndo :: "bool \<Rightarrow> env \<Rightarrow> state \<Rightarrow> state" where
  "handleUndo remote e s =
     (if length (history s) > 1
      then
        (let currentState = history s ! (length (history s) - 1);
             prevState = history s ! (length (history s) - 2);
             s1 = s\<lparr>isRemote := True\<rparr>;
             s2 = (if \<not> remote then socket_emit s1 (CanvasAction (roomId e) ''undo'') else s1)
         in loadFromJSON e s2 prevState
              (\<lambda>s'. s'\<lparr>history := butlast (history s),
                        redoStack := currentState # redoStack s,
                        isRemote := False\<rparr>))
      else if \<not> remote then socket_emit s (CanvasAction (roomId e) ''undo'') else s)"

definition handleRedo :: "bool \<Rightarrow> env \<Rightarrow> state \<Rightarrow> state" where
  "handleRedo remote e s =
     (case redoStack s of
        [] \<Rightarrow> (if \<not> remote then socket_emit s (CanvasAction (roomId e) ''redo'') else s)
      | nextState # rest \<Rightarrow>
          (let s1 = s\<lparr>isRemote := True\<rparr>;
               s2 = (if \<not> remote then socket_emit s1 (CanvasAction (roomId e) ''redo'') else s1)
           in loadFromJSON e s2 nextState
                (\<lambda>s'. s'\<lparr>history := history s @ [nextState],
                          redoStack := rest,
                          isRemote := False\<rparr>)))"

definition handleClear :: "bool \<Rightarrow> env \<Rightarrow> state \<Rightarrow> state" where
  "handleClear remote e s =
     (let s1 = canvas_clear e (s\<lparr>isClearing := True\<rparr>);
          s2 = s1\<lparr>backgroundColor := ''#fff''\<rparr>;
          clearedState = toJSON s2;
          s3 = s2\<lparr>history := history s2 @ [clearedState], redoStack := [], isClearing := False\<rparr>
      in if \<not> remote then socket_emit s3 (CanvasAction (roomId e) ''clear'') else s3)"

text \<open>
  The three buttons are wired as \<^verbatim>\<open>onClick={handleUndo}\<close> and so on (lines 511, 521 and
  531): the handler is called with the click event as its first argument, an object,
  which is what \<^verbatim>\<open>remote\<close> is bound to, and \<^verbatim>\<open>!remote\<close> is false.
\<close>

definition click_undo :: "env \<Rightarrow> state \<Rightarrow> state" where
  "click_undo e s = handleUndo True e s"

definition click_redo :: "env \<Rightarrow> state \<Rightarrow> state" where
  "click_redo e s = handleRedo True e s"

definition click_clear :: "env \<Rightarrow> state \<Rightarrow> state" where
  "click_clear e s = handleClear True e s"

subsection \<open>Mounting (lines 14-57 and 183-193)\<close>

text \<open>
  The state once the effects of the first render have run: the canvas exists and is
  empty, \<open>history\<close> holds its snapshot, the socket is open and \<^verbatim>\<open>join-room\<close> is sent.
\<close>

definition empty_canvas :: state where
  "empty_canvas =
     \<lparr>objects = [], backgroundColor = ''#fff'', isRemote = False, isClearing = False,
      tool = ''pen'', color = ''#000000'', fontSize = 24, fontFamily = ''Arial'',
      history = [], redoStack = [], emitted = [], console = [], uuid_calls = 0\<rparr>"

definition init :: "env \<Rightarrow> state" where
  "init e =
     socket_emit (empty_canvas\<lparr>history := [toJSON empty_canvas]\<rparr>)
       (JoinRoom (roomId e) (password e) (role e) (username e))"

text \<open>The states the component can be in: \<open>init\<close> and what the handlers make of it.\<close>

inductive reachable :: "env \<Rightarrow> state \<Rightarrow> bool" for e :: env where
  r_init: "reachable e (init e)"
| r_tool: "reachable e s \<Longrightarrow> reachable e (handleToolChange e s edited t)"
| r_color: "reachable e s \<Longrightarrow> reachable e (s\<lparr>color := c\<rparr>)"
| r_fontSize: "reachable e s \<Longrightarrow> reachable e (s\<lparr>fontSize := n\<rparr>)"
| r_fontFamily: "reachable e s \<Longrightarrow> reachable e (s\<lparr>fontFamily := f\<rparr>)"
| r_mouse: "reachable e s \<Longrightarrow> reachable e (mouse_down e s ev)"
| r_path: "reachable e s \<Longrightarrow> reachable e (path_created e s p)"
| r_transformed: "reachable e s \<Longrightarrow> reachable e (object_transformed e s t t')"
| r_restyled: "reachable e s \<Longrightarrow> reachable e (object_restyled s t t')"
| r_rect: "reachable e s \<Longrightarrow> reachable e (addRectangle e s edited)"
| r_circle: "reachable e s \<Longrightarrow> reachable e (addCircle e s edited)"
| r_undo: "reachable e s \<Longrightarrow> reachable e (click_undo e s)"
| r_redo: "reachable e s \<Longrightarrow> reachable e (click_redo e s)"
| r_clear: "reachable e s \<Longrightarrow> reachable e (click_clear e s)"
| r_receive: "reachable e s \<Longrightarrow> reachable e (socket_receive e s m)"
| r_begin: "reachable e s \<Longrightarrow> reachable e (fst (object_added_begin e s obj))"
| r_resume: "reachable e s \<Longrightarrow> reachable e (object_added_resume e s r)"

text \<open>
  An environment to run the handlers in: the four classes of the whiteboard are
  registered and reconstruct to the payload, the type \<^verbatim>\<open>broken\<close> is registered with a
  reconstruction that throws, the lookup of \<^verbatim>\<open>proxy\<close> throws, any other type is unknown.
\<close>

definition test_env :: env where
  "test_env =
     \<lparr>roomId = ''R1'', password = [], role = ''editor'', username = ''Guest'',
      getClass = (\<lambda>t. if t = ''Rect'' \<or> t = ''Circle'' \<or> t = ''IText'' \<or> t = ''Path''
                        then Inr (Some (\<lambda>obj. Inr obj))
                      else if t = ''broken'' then Inr (Some (\<lambda>obj. Inl ''bad payload''))
                      else if t = ''proxy'' then Inl ''no class registered''
                      else Inr None),
      uuidv4 = (\<lambda>n. ''uuid-'' @ replicate n (CHR ''i''))\<rparr>"

text \<open>States and payloads the results below are run on.\<close>

definition remote_rect :: fobj where
  "remote_rect = \<lparr>obj_id = Some ''r1'', obj_type = ''Rect'', props = [(''width'', JNum 10)]\<rparr>"

text \<open>A remote rectangle is being reconstructed: the handler is at its \<^verbatim>\<open>await\<close>.\<close>

definition awaiting :: state where
  "awaiting = fst (object_added_begin test_env (init test_env) remote_rect)"

definition one_remote :: state where
  "one_remote = on_object_added test_env (init test_env) remote_rect"

definition one_edit :: state where
  "one_edit = addRectangle test_env (init test_env) None"

definition cleared :: state where
  "cleared = click_clear test_env (init test_env)"

text \<open>Clear, a rectangle, then Undo.\<close>

definition clear_edit_undo :: state where
  "clear_edit_undo = click_undo test_env (addRectangle test_env cleared None)"

section \<open>What each call leaves alone\<close>

lemma socket_emit_fields [simp]:
  "objects (socket_emit s m) = objects s"
  "history (socket_emit s m) = history s"
  "redoStack (socket_emit s m) = redoStack s"
  "isRemote (socket_emit s m) = isRemote s"
  "console (socket_emit s m) = console s"
  "uuid_calls (socket_emit s m) = uuid_calls s"
  "emitted (socket_emit s m) = emitted s @ [m]"
  by (simp_all add: socket_emit_def)

lemma console_log_fields [simp]:
  "objects (console_log s l) = objects s"
  "history (console_log s l) = history s"
  "redoStack (console_log s l) = redoStack s"
  "isRemote (console_log s l) = isRemote s"
  "emitted (console_log s l) = emitted s"
  "console (console_log s l) = console s @ [l]"
  by (simp_all add: console_log_def)

lemma release_fields [simp]:
  "objects (release s) = objects s"
  "history (release s) = history s"
  "redoStack (release s) = redoStack s"
  "isRemote (release s) = False"
  "emitted (release s) = emitted s"
  "console (release s) = console s"
  by (simp_all add: release_def)

lemma emit_handlers_stacks [simp]:
  "history (emitAdded e s t) = history s"
  "redoStack (emitAdded e s t) = redoStack s"
  "history (emitModified e s t) = history s"
  "redoStack (emitModified e s t) = redoStack s"
  "history (emitRemoved e s t) = history s"
  "redoStack (emitRemoved e s t) = redoStack s"
  by (simp_all add: emitAdded_def emitModified_def emitRemoved_def)

lemma emit_handlers_gate [simp]:
  "isRemote (emitAdded e s t) = isRemote s"
  "isRemote (emitModified e s t) = isRemote s"
  "isRemote (emitRemoved e s t) = isRemote s"
  by (simp_all add: emitAdded_def emitModified_def emitRemoved_def)

lemma emit_handlers_objects [simp]:
  "objects (emitAdded e s t) = objects s"
  "objects (emitModified e s t) = objects s"
  "objects (emitRemoved e s t) = objects s"
  by (simp_all add: emitAdded_def emitModified_def emitRemoved_def)

lemma canvas_add_stacks [simp]:
  "history (fst (canvas_add e s t)) = history s"
  "redoStack (fst (canvas_add e s t)) = redoStack s"
  "isRemote (fst (canvas_add e s t)) = isRemote s"
  by (simp_all add: canvas_add_def assignId_def Let_def split: prod.splits)

lemma canvas_remove_stacks [simp]:
  "history (canvas_remove e s t) = history s"
  "redoStack (canvas_remove e s t) = redoStack s"
  "isRemote (canvas_remove e s t) = isRemote s"
  by (simp_all add: canvas_remove_def)

lemma fold_remove_stacks [simp]:
  "history (fold (\<lambda>t s'. canvas_remove e s' t) ts s) = history s"
  "redoStack (fold (\<lambda>t s'. canvas_remove e s' t) ts s) = redoStack s"
  "isRemote (fold (\<lambda>t s'. canvas_remove e s' t) ts s) = isRemote s"
  by (induction ts arbitrary: s) simp_all

lemma fold_add_stacks [simp]:
  "history (fold (\<lambda>t s'. fst (canvas_add e s' t)) ts s) = history s"
  "redoStack (fold (\<lambda>t s'. fst (canvas_add e s' t)) ts s) = redoStack s"
  "isRemote (fold (\<lambda>t s'. fst (canvas_add e s' t)) ts s) = isRemote s"
  by (induction ts arbitrary: s) simp_all

lemma canvas_clear_stacks [simp]:
  "history (canvas_clear e s) = history s"
  "redoStack (canvas_clear e s) = redoStack s"
  "isRemote (canvas_clear e s) = isRemote s"
  by (simp_all add: canvas_clear_def)

lemma fold_remove_objects:
  "objects s = ts @ rest \<Longrightarrow> objects (fold (\<lambda>t s'. canvas_remove e s' t) ts s) = rest"
  by (induction ts arbitrary: s) (simp_all add: canvas_remove_def)

lemma canvas_clear_objects [simp]: "objects (canvas_clear e s) = []"
  by (simp add: canvas_clear_def fold_remove_objects [where rest = "[]"])

lemma fold_reviver_stacks:
  "history (fold (\<lambda>t s'. s'\<lparr>history := h, redoStack := r, isRemote := False\<rparr>) ts s)
     = (if ts = [] then history s else h)"
  "redoStack (fold (\<lambda>t s'. s'\<lparr>history := h, redoStack := r, isRemote := False\<rparr>) ts s)
     = (if ts = [] then redoStack s else r)"
  by (induction ts arbitrary: s) simp_all

lemma fold_release_stacks:
  "history (fold (\<lambda>t s'. s'\<lparr>isRemote := False\<rparr>) ts s) = history s"
  "redoStack (fold (\<lambda>t s'. s'\<lparr>isRemote := False\<rparr>) ts s) = redoStack s"
  by (induction ts arbitrary: s) simp_all

lemma loadFromJSON_stacks:
  "history (loadFromJSON e s j reviver)
     = history (fold (\<lambda>t s'. reviver s') (enliven e (snap_objects j)) s)"
  "redoStack (loadFromJSON e s j reviver)
     = redoStack (fold (\<lambda>t s'. reviver s') (enliven e (snap_objects j)) s)"
  by (simp_all add: loadFromJSON_def Let_def)

text \<open>A record without objects: the function given is not called, the canvas is emptied.\<close>

lemma loadFromJSON_no_objects:
  "snap_objects j = [] \<Longrightarrow>
     loadFromJSON e s j reviver = (canvas_clear e s)\<lparr>backgroundColor := snap_background j\<rparr>"
  by (simp add: loadFromJSON_def enliven_def)

lemma edits_keep_stacks:
  "history (handleToolChange e s a t) = history s
     \<and> redoStack (handleToolChange e s a t) = redoStack s"
  "history (path_created e s p) = history s \<and> redoStack (path_created e s p) = redoStack s"
  "history (object_transformed e s t1 t2) = history s
     \<and> redoStack (object_transformed e s t1 t2) = redoStack s"
  "history (addRectangle e s a) = history s \<and> redoStack (addRectangle e s a) = redoStack s"
  "history (addCircle e s a) = history s \<and> redoStack (addCircle e s a) = redoStack s"
  "history (handleEraserClick e s ev) = history s \<and> redoStack (handleEraserClick e s ev) = redoStack s"
  "history (handleTextClick e s ev) = history s \<and> redoStack (handleTextClick e s ev) = redoStack s"
  by (simp_all add: handleToolChange_def exitEditing_def path_created_def
      object_transformed_def addRectangle_def addCircle_def handleEraserClick_def
      handleTextClick_def Let_def split_beta split: option.splits)

lemma mouse_down_keeps_stacks:
  "history (mouse_down e s ev) = history s \<and> redoStack (mouse_down e s ev) = redoStack s"
  by (simp add: mouse_down_def edits_keep_stacks)

lemma object_added_keeps_stacks:
  "history (fst (object_added_begin e s obj)) = history s"
  "redoStack (fst (object_added_begin e s obj)) = redoStack s"
  "history (object_added_resume e s r) = history s"
  "redoStack (object_added_resume e s r) = redoStack s"
  "history (on_object_added e s obj) = history s"
  "redoStack (on_object_added e s obj) = redoStack s"
  by (simp_all add: object_added_begin_def object_added_resume_def on_object_added_def
      Let_def split: sum.splits option.splits prod.splits)

lemma socket_receive_keeps_stacks:
  "history (socket_receive e s m) = history s \<and> redoStack (socket_receive e s m) = redoStack s"
  by (cases m)
    (simp_all add: object_added_keeps_stacks on_object_modified_def on_object_removed_def
      on_drawing_def loadFromJSON_stacks fold_release_stacks Let_def split: option.splits)

lemma handleUndo_history:
  "history (handleUndo remote e s) = history s
   \<or> (1 < length (history s) \<and> history (handleUndo remote e s) = butlast (history s))"
  by (simp add: handleUndo_def Let_def loadFromJSON_stacks fold_reviver_stacks)

lemma handleRedo_history:
  "history (handleRedo remote e s) = history s
   \<or> (redoStack s \<noteq> [] \<and> history (handleRedo remote e s) = history s @ [hd (redoStack s)])"
  by (simp add: handleRedo_def Let_def loadFromJSON_stacks fold_reviver_stacks
      split: list.splits)

lemma handleClear_history:
  "length (history (handleClear remote e s)) = length (history s) + 1"
  by (simp add: handleClear_def Let_def)

lemma find_absent: "i \<notin> set (map obj_id xs) \<Longrightarrow> find (\<lambda>o'. obj_id o' = i) xs = None"
  by (induction xs) auto

section \<open>The run states, evaluated\<close>

lemma test_env_fields:
  "roomId test_env = ''R1''" "password test_env = []" "role test_env = ''editor''"
  "username test_env = ''Guest''"
  "uuidv4 test_env n = ''uuid-'' @ replicate n (CHR ''i'')"
  "getClass test_env t =
     (if t = ''Rect'' \<or> t = ''Circle'' \<or> t = ''IText'' \<or> t = ''Path''
      then Inr (Some (\<lambda>obj. Inr obj))
      else if t = ''broken'' then Inr (Some (\<lambda>obj. Inl ''bad payload''))
      else if t = ''proxy'' then Inl ''no class registered''
      else Inr None)"
  by (simp_all add: test_env_def)

lemma init_test:
  "init test_env =
     \<lparr>objects = [], backgroundColor = ''#fff'', isRemote = False, isClearing = False,
      tool = ''pen'', color = ''#000000'', fontSize = 24, fontFamily = ''Arial'',
      history = [\<lparr>snap_objects = [], snap_background = ''#fff''\<rparr>], redoStack = [],
      emitted = [JoinRoom ''R1'' [] ''editor'' ''Guest''], console = [], uuid_calls = 0\<rparr>"
  by (simp add: init_def empty_canvas_def toJSON_def socket_emit_def test_env_fields)

lemma awaiting_eq: "awaiting = (init test_env)\<lparr>isRemote := True\<rparr>"
  by (simp add: awaiting_def object_added_begin_def test_env_fields remote_rect_def)

lemma one_remote_eq: "one_remote = (init test_env)\<lparr>objects := [remote_rect]\<rparr>"
  by (simp add: one_remote_def on_object_added_def object_added_begin_def
      object_added_resume_def canvas_add_def assignId_def emitAdded_def release_def
      test_env_fields init_test remote_rect_def falsy_def)

lemma one_edit_eq:
  "one_edit =
     \<lparr>objects = [\<lparr>obj_id = Some ''uuid-'', obj_type = ''Rect'',
         props = [(''fill'', JStr ''#000000''), (''width'', JNum 100), (''height'', JNum 100),
                  (''left'', JNum 350), (''top'', JNum 250)]\<rparr>],
      backgroundColor = ''#fff'', isRemote = False, isClearing = False,
      tool = ''select'', color = ''#000000'', fontSize = 24, fontFamily = ''Arial'',
      history = [\<lparr>snap_objects = [], snap_background = ''#fff''\<rparr>], redoStack = [],
      emitted = [JoinRoom ''R1'' [] ''editor'' ''Guest'',
        ObjectAdded ''R1'' \<lparr>obj_id = Some ''uuid-'', obj_type = ''Rect'',
         props = [(''fill'', JStr ''#000000''), (''width'', JNum 100), (''height'', JNum 100),
                  (''left'', JNum 350), (''top'', JNum 250)]\<rparr>,
        ObjectAdded ''R1'' \<lparr>obj_id = Some ''uuid-'', obj_type = ''Rect'',
         props = [(''fill'', JStr ''#000000''), (''width'', JNum 100), (''height'', JNum 100),
                  (''left'', JNum 350), (''top'', JNum 250)]\<rparr>],
      console = [], uuid_calls = 1\<rparr>"
  by (simp add: one_edit_def init_test addRectangle_def handleToolChange_def exitEditing_def new_rect_def
      canvas_add_def assignId_def falsy_def emitAdded_def socket_emit_def toObject_def
      canvas_width_def canvas_height_def test_env_fields Let_def)

lemma one_edit_objects:
  "objects one_edit =
     [\<lparr>obj_id = Some ''uuid-'', obj_type = ''Rect'',
       props = [(''fill'', JStr ''#000000''), (''width'', JNum 100), (''height'', JNum 100),
                (''left'', JNum 350), (''top'', JNum 250)]\<rparr>]"
  by (simp add: one_edit_eq)

lemma cleared_eq:
  "cleared = (init test_env)
     \<lparr>history := [\<lparr>snap_objects = [], snap_background = ''#fff''\<rparr>,
                  \<lparr>snap_objects = [], snap_background = ''#fff''\<rparr>]\<rparr>"
  by (simp add: cleared_def click_clear_def handleClear_def canvas_clear_def toJSON_def init_test)

lemma reachable_history: "reachable e s \<Longrightarrow> history s \<noteq> []"
proof (induction rule: reachable.induct)
  case r_init
  show ?case by (simp add: init_def)
next
  case (r_undo s)
  from handleUndo_history [of True e s] r_undo show ?case
    by (cases "history s" rule: rev_cases) (auto simp add: click_undo_def)
next
  case (r_redo s)
  from handleRedo_history [of True e s] r_redo show ?case
    by (auto simp add: click_redo_def)
next
  case (r_clear s)
  have "length (history (click_clear e s)) \<noteq> 0"
    by (simp add: click_clear_def handleClear_history)
  then show ?case by (simp del: length_0_conv)
qed (simp_all add: edits_keep_stacks mouse_down_keeps_stacks socket_receive_keeps_stacks
    object_added_keeps_stacks object_restyled_def)

text \<open>
  Every snapshot the component stores is taken of an empty canvas, at mount and after a
  clear: no reachable state has a snapshot with objects, and none has a snapshot on the
  redo stack.
\<close>

lemma handleClear_stacks:
  "history (handleClear remote e s) = history s @ [\<lparr>snap_objects = [], snap_background = ''#fff''\<rparr>]"
  "redoStack (handleClear remote e s) = []"
  by (simp_all add: handleClear_def toJSON_def Let_def)

lemma undo_without_objects:
  assumes "list_all (\<lambda>j. snap_objects j = []) (history s)"
  shows "history (handleUndo remote e s) = history s"
    and "redoStack (handleUndo remote e s) = redoStack s"
proof -
  have "snap_objects (history s ! (length (history s) - 2)) = []" if "1 < length (history s)"
    using assms that by (simp add: list_all_length)
  then show "history (handleUndo remote e s) = history s"
    and "redoStack (handleUndo remote e s) = redoStack s"
    by (simp_all add: handleUndo_def Let_def loadFromJSON_no_objects)
qed

lemma reachable_snapshots:
  "reachable e s \<Longrightarrow> redoStack s = [] \<and> list_all (\<lambda>j. snap_objects j = []) (history s)"
proof (induction rule: reachable.induct)
  case r_init
  show ?case by (simp add: init_def empty_canvas_def toJSON_def)
next
  case (r_undo s)
  then show ?case by (simp add: click_undo_def undo_without_objects)
next
  case (r_redo s)
  then show ?case by (simp add: click_redo_def handleRedo_def)
next
  case (r_clear s)
  then show ?case by (simp add: click_clear_def handleClear_stacks)
qed (simp_all add: edits_keep_stacks mouse_down_keeps_stacks socket_receive_keeps_stacks
    object_added_keeps_stacks object_restyled_def)

lemma on_object_added_reconstructed:
  assumes "getClass e (obj_type obj) = Inr (Some klass)" and "klass obj = Inr fabricObj"
    and "\<not> falsy (obj_id fabricObj)"
  shows "on_object_added e s obj =
     (if list_ex (\<lambda>o'. obj_id o' = obj_id fabricObj) (objects s)
      then s\<lparr>isRemote := False\<rparr>
      else s\<lparr>objects := objects s @ [fabricObj], isRemote := False\<rparr>)"
  using assms
  by (simp add: on_object_added_def object_added_begin_def object_added_resume_def
      canvas_add_def assignId_def emitAdded_def release_def)

text \<open>
  Two deliveries of one \<^verbatim>\<open>object:added\<close> may overlap, the second arriving while the
  first is awaited: the test and the \<^verbatim>\<open>add\<close> run in one piece after the \<^verbatim>\<open>await\<close>, so
  the object is still added once.
\<close>

lemma object_added_overlapping:
  assumes "getClass e (obj_type obj) = Inr (Some klass)" and "klass obj = Inr fabricObj"
    and "\<not> falsy (obj_id fabricObj)"
    and "\<not> list_ex (\<lambda>o'. obj_id o' = obj_id fabricObj) (objects s)"
  shows "object_added_begin e s obj = (s\<lparr>isRemote := True\<rparr>, Some (Inr fabricObj))"
    and "objects (object_added_resume e
           (object_added_resume e
              (fst (object_added_begin e (fst (object_added_begin e s obj)) obj))
              (Inr fabricObj))
           (Inr fabricObj)) = objects s @ [fabricObj]"
  using assms
  by (simp_all add: object_added_begin_def object_added_resume_def canvas_add_def
      assignId_def emitAdded_def release_def)

section \<open>Echo suppression\<close>

text \<open>
  Claim C1 says that while the gate is engaged no local edit emits anything, the explicit
  emits of \<open>addRectangle\<close>, \<open>addCircle\<close>, the text click and the eraser click included.
  The explicit emits do not read the gate: with a remote rectangle still being
  reconstructed, a click on the Rectangle button sends an \<^verbatim>\<open>object:added\<close>.
\<close>

theorem addRectangle_emits_while_gate_engaged:
  "isRemote awaiting \<and> emitted (addRectangle test_env awaiting None) \<noteq> emitted awaiting"
  by (simp add: awaiting_eq addRectangle_def canvas_add_def assignId_def emitAdded_def
      handleToolChange_def exitEditing_def Let_def split: prod.splits)

text \<open>
  Claim C1, as the code has it: while the gate is engaged the three listeners
  \<open>emitAdded\<close>, \<open>emitModified\<close> and \<open>emitRemoved\<close> return without emitting, so adding to
  or removing from the canvas emits nothing; \<open>addRectangle\<close>, \<open>addCircle\<close>, the text
  click and the eraser click each emit exactly one Operation, the explicit one.
\<close>

theorem gate_suppresses_change_capture:
  assumes "isRemote s"
  shows "emitAdded e s t = s \<and> emitModified e s t = s \<and> emitRemoved e s t = s
    \<and> emitted (fst (canvas_add e s t)) = emitted s
    \<and> emitted (canvas_remove e s t) = emitted s
    \<and> (\<exists>r. emitted (addRectangle e s a) = emitted s @ [ObjectAdded (roomId e) r])
    \<and> (\<exists>c. emitted (addCircle e s a) = emitted s @ [ObjectAdded (roomId e) c])
    \<and> (\<exists>x. emitted (handleTextClick e s \<lparr>target = None, pointer_x = px, pointer_y = py\<rparr>)
            = emitted s @ [ObjectAdded (roomId e) x])
    \<and> emitted (handleEraserClick e s \<lparr>target = Some t, pointer_x = px, pointer_y = py\<rparr>)
            = emitted s @ [ObjectRemoved (roomId e) (obj_id t)]"
  using assms
  by (simp add: emitAdded_def emitModified_def emitRemoved_def canvas_add_def canvas_remove_def
      assignId_def addRectangle_def addCircle_def handleTextClick_def handleEraserClick_def
      handleToolChange_def exitEditing_def Let_def split: prod.splits option.splits)

theorem gate_suppresses_change_capture_witness:
  "isRemote awaiting
   \<and> emitAdded test_env awaiting remote_rect = awaiting
   \<and> emitModified test_env awaiting remote_rect = awaiting
   \<and> emitRemoved test_env awaiting remote_rect = awaiting
   \<and> emitted (handleEraserClick test_env awaiting
        \<lparr>target = Some remote_rect, pointer_x = 0, pointer_y = 0\<rparr>)
      = emitted awaiting @ [ObjectRemoved ''R1'' (Some ''r1'')]"
proof -
  have g: "isRemote awaiting" by (simp add: awaiting_eq)
  show ?thesis
    using g gate_suppresses_change_capture
      [OF g, where e = test_env and t = remote_rect and a = None and px = 0 and py = 0]
    by (simp add: test_env_fields remote_rect_def)
qed

section \<open>Applying remote Operations\<close>

text \<open>
  Claim C2: the same \<^verbatim>\<open>object:added\<close> applied twice leaves exactly one object with its
  identifier, the second application changing nothing. The payload's type has a class,
  the reconstruction yields an object with an identifier, and the canvas does not
  already hold that identifier twice.
\<close>

theorem object_added_twice_is_once:
  assumes "getClass e (obj_type obj) = Inr (Some klass)" and "klass obj = Inr fabricObj"
    and "\<not> falsy (obj_id fabricObj)"
    and "length (filter (\<lambda>o'. obj_id o' = obj_id fabricObj) (objects s)) \<le> 1"
  shows "on_object_added e (on_object_added e s obj) obj = on_object_added e s obj
    \<and> length (filter (\<lambda>o'. obj_id o' = obj_id fabricObj)
         (objects (on_object_added e (on_object_added e s obj) obj))) = 1"
proof (cases "list_ex (\<lambda>o'. obj_id o' = obj_id fabricObj) (objects s)")
  case True
  then have "filter (\<lambda>o'. obj_id o' = obj_id fabricObj) (objects s) \<noteq> []"
    by (simp add: list_ex_iff filter_empty_conv)
  then have "length (filter (\<lambda>o'. obj_id o' = obj_id fabricObj) (objects s)) = 1"
    using assms(4) by (cases "filter (\<lambda>o'. obj_id o' = obj_id fabricObj) (objects s)") auto
  with True show ?thesis
    by (simp add: on_object_added_reconstructed [OF assms(1-3)])
next
  case False
  then have "filter (\<lambda>o'. obj_id o' = obj_id fabricObj) (objects s) = []"
    by (simp add: list_ex_iff filter_empty_conv)
  with False show ?thesis
    by (simp add: on_object_added_reconstructed [OF assms(1-3)])
qed

theorem object_added_twice_is_once_witness:
  "getClass test_env (obj_type remote_rect) = Inr (Some Inr)
   \<and> \<not> falsy (obj_id remote_rect)
   \<and> length (filter (\<lambda>o'. obj_id o' = obj_id remote_rect) (objects (init test_env))) \<le> 1
   \<and> on_object_added test_env one_remote remote_rect = one_remote
   \<and> length (filter (\<lambda>o'. obj_id o' = obj_id remote_rect)
        (objects (on_object_added test_env one_remote remote_rect))) = 1"
proof -
  have k: "getClass test_env (obj_type remote_rect) = Inr (Some Inr)"
    by (simp add: test_env_fields remote_rect_def)
  have r: "Inr remote_rect = (Inr remote_rect :: string + fobj)" by simp
  have f: "\<not> falsy (obj_id remote_rect)" by (simp add: falsy_def remote_rect_def)
  have n: "length (filter (\<lambda>o'. obj_id o' = obj_id remote_rect) (objects (init test_env))) \<le> 1"
    by (simp add: init_test)
  show ?thesis
    unfolding one_remote_def
    using k f n object_added_twice_is_once [OF k r f n] by blast
qed

text \<open>
  Claim C3: an \<^verbatim>\<open>object:modified\<close> or \<^verbatim>\<open>object:removed\<close> whose identifier no object
  of the canvas has leaves the collection as it is and raises nothing: the handler
  returns the state it was given, with the gate released.
\<close>

theorem unknown_id_is_noop:
  assumes "i \<notin> set (map obj_id (objects s))"
  shows "on_object_removed e s i = s\<lparr>isRemote := False\<rparr>
    \<and> (obj_id obj = i \<longrightarrow> on_object_modified e s obj = s\<lparr>isRemote := False\<rparr>)"
  using assms by (simp add: on_object_removed_def on_object_modified_def find_absent)

theorem unknown_id_is_noop_witness:
  "Some ''r2'' \<notin> set (map obj_id (objects one_remote))
   \<and> objects (on_object_removed test_env one_remote (Some ''r2'')) = [remote_rect]
   \<and> objects (on_object_modified test_env one_remote
        \<lparr>obj_id = Some ''r2'', obj_type = ''Rect'', props = [(''width'', JNum 7)]\<rparr>) = [remote_rect]"
proof -
  have a: "Some ''r2'' \<notin> set (map obj_id (objects one_remote))"
    by (simp add: one_remote_eq remote_rect_def)
  show ?thesis
    using a unknown_id_is_noop [OF a, of test_env
        "\<lparr>obj_id = Some ''r2'', obj_type = ''Rect'', props = [(''width'', JNum 7)]\<rparr>"]
    by (simp add: one_remote_eq)
qed

text \<open>
  Claim C8: an \<^verbatim>\<open>object:added\<close> whose type has no class, or whose reconstruction
  throws, is dropped with a line on the console and nothing else changed, and the gate
  is released on every path of the handler, the successful one included.
\<close>

theorem object_added_failure_releases_gate:
  "\<not> isRemote (on_object_added e s obj)
   \<and> \<not> isRemote (object_added_resume e s r)
   \<and> (getClass e (obj_type obj) = Inr None \<longrightarrow>
        on_object_added e s obj =
          s\<lparr>isRemote := False,
            console := console s @ [Warn (''Unknown fabric object type: '' @ obj_type obj)]\<rparr>)
   \<and> (getClass e (obj_type obj) = Inl err \<longrightarrow>
        on_object_added e s obj =
          s\<lparr>isRemote := False,
            console := console s @ [Error (''Error restoring object: '' @ err)]\<rparr>)
   \<and> (getClass e (obj_type obj) = Inr (Some klass) \<and> klass obj = Inl err \<longrightarrow>
        on_object_added e s obj =
          s\<lparr>isRemote := False,
            console := console s @ [Error (''Error restoring object: '' @ err)]\<rparr>)"
  by (auto simp add: on_object_added_def object_added_begin_def object_added_resume_def
      release_def console_log_def Let_def split: sum.splits option.splits prod.splits)

theorem object_added_failure_releases_gate_witness:
  "getClass test_env ''star'' = Inr None
   \<and> on_object_added test_env awaiting \<lparr>obj_id = Some ''s1'', obj_type = ''star'', props = []\<rparr>
       = (init test_env)\<lparr>console := [Warn ''Unknown fabric object type: star'']\<rparr>
   \<and> getClass test_env ''proxy'' = Inl ''no class registered''
   \<and> on_object_added test_env awaiting \<lparr>obj_id = Some ''p1'', obj_type = ''proxy'', props = []\<rparr>
       = (init test_env)\<lparr>console := [Error ''Error restoring object: no class registered'']\<rparr>
   \<and> getClass test_env ''broken'' = Inr (Some (\<lambda>obj. Inl ''bad payload''))
   \<and> on_object_added test_env awaiting \<lparr>obj_id = Some ''b1'', obj_type = ''broken'', props = []\<rparr>
       = (init test_env)\<lparr>console := [Error ''Error restoring object: bad payload'']\<rparr>
   \<and> \<not> isRemote (on_object_added test_env awaiting remote_rect)"
proof -
  have a: "getClass test_env ''star'' = Inr None"
    and b: "getClass test_env ''proxy'' = Inl ''no class registered''"
    and c: "getClass test_env ''broken'' = Inr (Some (\<lambda>obj. Inl ''bad payload''))"
    by (simp_all add: test_env_fields)
  show ?thesis
    using a b c
      object_added_failure_releases_gate [of test_env awaiting
        "\<lparr>obj_id = Some ''s1'', obj_type = ''star'', props = []\<rparr>" undefined undefined undefined]
      object_added_failure_releases_gate [of test_env awaiting
        "\<lparr>obj_id = Some ''p1'', obj_type = ''proxy'', props = []\<rparr>" undefined
        "''no class registered''" undefined]
      object_added_failure_releases_gate [of test_env awaiting
        "\<lparr>obj_id = Some ''b1'', obj_type = ''broken'', props = []\<rparr>" undefined
        "''bad payload''" "\<lambda>obj. Inl ''bad payload''"]
      object_added_failure_releases_gate [of test_env awaiting remote_rect undefined undefined undefined]
    by (simp add: awaiting_eq init_test)
qed

section \<open>Local edits are sent twice\<close>

text \<open>
  Claim C10 says that every rectangle, circle or text created here, and every object
  erased here by a click, is sent twice, the gate not being engaged for local edits.
  The gate can be engaged when the edit is made: with a remote rectangle still being
  reconstructed, a click on the Rectangle button sends one message, not two.
\<close>

theorem local_rectangle_sent_once_while_awaiting:
  "reachable test_env awaiting
   \<and> length (emitted (addRectangle test_env awaiting None)) = length (emitted awaiting) + 1"
proof -
  have "reachable test_env awaiting"
    unfolding awaiting_def by (rule r_begin, rule r_init)
  then show ?thesis
    by (simp add: awaiting_eq addRectangle_def canvas_add_def assignId_def emitAdded_def
        handleToolChange_def exitEditing_def Let_def split: prod.splits)
qed

text \<open>
  Claim C10, as the code has it: when the gate is not engaged, a rectangle, a circle or
  a text created here, and an object erased here by a click, is sent twice, once by the
  canvas listener that fires for the change and once by the handler's explicit emit,
  the two messages being equal; for a rectangle or a circle they follow the
  \<^verbatim>\<open>object:modified\<close> of the text whose editing the tool change has ended, if there is
  one. When the gate is engaged the Operation is sent once, by the explicit emit.
\<close>

theorem local_edits_sent_twice_when_gate_off:
  "(\<not> isRemote s \<longrightarrow>
      (\<exists>r. emitted (addRectangle e s a)
              = emitted s @ (case a of None \<Rightarrow> [] | Some x \<Rightarrow> [ObjectModified (roomId e) x])
                  @ [ObjectAdded (roomId e) r, ObjectAdded (roomId e) r])
    \<and> (\<exists>c. emitted (addCircle e s a)
              = emitted s @ (case a of None \<Rightarrow> [] | Some x \<Rightarrow> [ObjectModified (roomId e) x])
                  @ [ObjectAdded (roomId e) c, ObjectAdded (roomId e) c])
    \<and> (\<exists>x. emitted (handleTextClick e s \<lparr>target = None, pointer_x = px, pointer_y = py\<rparr>)
              = emitted s @ [ObjectAdded (roomId e) x, ObjectAdded (roomId e) x])
    \<and> (t \<in> set (objects s) \<longrightarrow>
         emitted (handleEraserClick e s \<lparr>target = Some t, pointer_x = px, pointer_y = py\<rparr>)
              = emitted s @ [ObjectRemoved (roomId e) (obj_id t), ObjectRemoved (roomId e) (obj_id t)]))
   \<and> (isRemote s \<longrightarrow>
      (\<exists>r. emitted (addRectangle e s a) = emitted s @ [ObjectAdded (roomId e) r])
    \<and> (\<exists>c. emitted (addCircle e s a) = emitted s @ [ObjectAdded (roomId e) c])
    \<and> (\<exists>x. emitted (handleTextClick e s \<lparr>target = None, pointer_x = px, pointer_y = py\<rparr>)
              = emitted s @ [ObjectAdded (roomId e) x])
    \<and> emitted (handleEraserClick e s \<lparr>target = Some t, pointer_x = px, pointer_y = py\<rparr>)
              = emitted s @ [ObjectRemoved (roomId e) (obj_id t)])"
  by (simp add: emitAdded_def emitRemoved_def emitModified_def canvas_add_def canvas_remove_def
      assignId_def addRectangle_def addCircle_def handleTextClick_def handleEraserClick_def
      handleToolChange_def exitEditing_def toObject_def Let_def
      split: prod.splits option.splits)

theorem local_edits_sent_twice_when_gate_off_witness:
  "\<not> isRemote (init test_env)
   \<and> emitted one_edit
       = emitted (init test_env)
           @ [ObjectAdded ''R1'' (hd (objects one_edit)), ObjectAdded ''R1'' (hd (objects one_edit))]
   \<and> \<not> isRemote one_edit
   \<and> hd (objects one_edit) \<in> set (objects one_edit)
   \<and> emitted (handleEraserClick test_env one_edit
         \<lparr>target = Some (hd (objects one_edit)), pointer_x = 3, pointer_y = 4\<rparr>)
       = emitted one_edit @ [ObjectRemoved ''R1'' (Some ''uuid-''), ObjectRemoved ''R1'' (Some ''uuid-'')]
   \<and> isRemote awaiting
   \<and> emitted (handleEraserClick test_env awaiting
         \<lparr>target = Some remote_rect, pointer_x = 3, pointer_y = 4\<rparr>)
       = emitted awaiting @ [ObjectRemoved ''R1'' (Some ''r1'')]"
proof -
  have a: "\<not> isRemote (init test_env)" by (simp add: init_test)
  have b: "\<not> isRemote one_edit" by (simp add: one_edit_eq)
  have c: "hd (objects one_edit) \<in> set (objects one_edit)" by (simp add: one_edit_objects)
  have d: "isRemote awaiting" by (simp add: awaiting_eq)
  show ?thesis
    using a b c d
      local_edits_sent_twice_when_gate_off
        [where e = test_env and s = "init test_env" and a = None and px = 0 and py = 0]
      local_edits_sent_twice_when_gate_off
        [where e = test_env and s = one_edit and a = None and px = 3 and py = 4
           and t = "hd (objects one_edit)"]
      local_edits_sent_twice_when_gate_off
        [where e = test_env and s = awaiting and a = None and px = 3 and py = 4
           and t = remote_rect]
    by (simp add: test_env_fields one_edit_eq init_test remote_rect_def)
qed

section \<open>The history stack\<close>

text \<open>
  What Undo does on the code once a clear has made it possible: the snapshot it loads
  has no objects, so the function given to \<^verbatim>\<open>loadFromJSON\<close> is not called; the canvas
  is emptied, the two stacks stay as they were and the gate stays engaged.
\<close>

lemma clear_edit_undo_eq:
  "clear_edit_undo =
     (init test_env)
       \<lparr>isRemote := True, tool := ''select'', uuid_calls := 1,
        history := [\<lparr>snap_objects = [], snap_background = ''#fff''\<rparr>,
                    \<lparr>snap_objects = [], snap_background = ''#fff''\<rparr>],
        emitted := emitted (init test_env)
          @ [ObjectAdded ''R1'' (hd (objects one_edit)), ObjectAdded ''R1'' (hd (objects one_edit))]\<rparr>"
  by (simp add: clear_edit_undo_def cleared_eq click_undo_def handleUndo_def
      loadFromJSON_no_objects canvas_clear_def canvas_remove_def emitRemoved_def
      one_edit_objects init_test addRectangle_def handleToolChange_def exitEditing_def
      new_rect_def canvas_add_def assignId_def falsy_def emitAdded_def socket_emit_def
      toObject_def canvas_width_def canvas_height_def test_env_fields Let_def)

text \<open>
  Claim C9: every reachable state has a history of at least one snapshot, and undo,
  redo and clear keep it so. Clear appends a snapshot, redo takes nothing off the
  history; with one snapshot an undo changes nothing, with an empty redo stack a redo
  changes nothing.
\<close>

theorem history_never_empty:
  assumes "reachable e s"
  shows "1 \<le> length (history s)
    \<and> 1 \<le> length (history (handleUndo remote e s))
    \<and> 1 \<le> length (history (handleRedo remote e s))
    \<and> length (history (handleClear remote e s)) = length (history s) + 1
    \<and> length (history s) \<le> length (history (handleRedo remote e s))
    \<and> (length (history s) \<le> 1 \<longrightarrow> handleUndo True e s = s)
    \<and> (redoStack s = [] \<longrightarrow> handleRedo True e s = s)"
proof -
  have "history s \<noteq> []" using assms by (rule reachable_history)
  then have n: "1 \<le> length (history s)" by (cases "history s") simp_all
  have u: "1 \<le> length (history (handleUndo remote e s))"
    using handleUndo_history [of remote e s] n by auto
  have r: "length (history s) \<le> length (history (handleRedo remote e s))"
    using handleRedo_history [of remote e s] by auto
  have "length (history s) \<le> 1 \<longrightarrow> handleUndo True e s = s"
    by (simp add: handleUndo_def)
  moreover have "redoStack s = [] \<longrightarrow> handleRedo True e s = s"
    by (simp add: handleRedo_def)
  ultimately show ?thesis
    using n u r by (simp add: handleClear_history)
qed

theorem history_never_empty_witness:
  "reachable test_env (init test_env)
   \<and> length (history (init test_env)) \<le> 1
   \<and> redoStack (init test_env) = []
   \<and> handleUndo True test_env (init test_env) = init test_env
   \<and> handleRedo True test_env (init test_env) = init test_env
   \<and> reachable test_env clear_edit_undo
   \<and> length (history clear_edit_undo) = 2
   \<and> redoStack clear_edit_undo = []
   \<and> 1 \<le> length (history (handleUndo True test_env clear_edit_undo))
   \<and> handleRedo True test_env clear_edit_undo = clear_edit_undo
   \<and> length (history (handleClear True test_env clear_edit_undo)) = 3"
proof -
  have r: "reachable test_env (init test_env)" by (rule r_init)
  have l: "length (history (init test_env)) \<le> 1" "redoStack (init test_env) = []"
    by (simp_all add: init_test)
  have r': "reachable test_env clear_edit_undo"
    unfolding clear_edit_undo_def cleared_def
    by (rule r_undo, rule r_rect, rule r_clear, rule r_init)
  have l': "length (history clear_edit_undo) = 2" "redoStack clear_edit_undo = []"
    by (simp_all add: clear_edit_undo_eq init_test)
  show ?thesis
    using r l r' l' history_never_empty [OF r, of True] history_never_empty [OF r', of True]
    by simp
qed

text \<open>
  Claim C4 (the undo/redo law) fails on the code: no edit reaches the history stack.
  After one rectangle the history still has length 1, where the law gives 2, and an
  undo after it leaves the rectangle on the canvas, where the law gives the empty canvas.
\<close>

theorem undo_after_edit_keeps_the_edit:
  "length (history one_edit) = 1
   \<and> objects (click_undo test_env one_edit) = objects one_edit
   \<and> objects one_edit \<noteq> objects (init test_env)"
  by (simp add: one_edit_eq init_test click_undo_def handleUndo_def)

text \<open>
  Claim C5 (an edit appends the current snapshot to the history and empties the redo
  stack) fails on the code: after a rectangle, a circle, a text, a stroke or an erasure
  the history is what it was at mount, and the snapshot of the canvas is not in it.
\<close>

theorem edit_not_saved_to_history:
  "history one_edit = history (init test_env)
   \<and> toJSON one_edit \<notin> set (history one_edit)
   \<and> objects one_edit \<noteq> objects (init test_env)
   \<and> history (addCircle test_env (init test_env) None) = history (init test_env)
   \<and> history (handleTextClick test_env (init test_env)
        \<lparr>target = None, pointer_x = 5, pointer_y = 6\<rparr>) = history (init test_env)
   \<and> history (path_created test_env (init test_env)
        \<lparr>obj_id = None, obj_type = ''Path'', props = []\<rparr>) = history (init test_env)
   \<and> history (handleEraserClick test_env one_edit
        \<lparr>target = Some (hd (objects one_edit)), pointer_x = 5, pointer_y = 6\<rparr>)
      = history (init test_env)"
  by (simp add: edits_keep_stacks one_edit_eq init_test toJSON_def)

text \<open>
  Claim C6 (a relayed \<^verbatim>\<open>canvas-action\<close> makes the receiver undo, redo or clear) fails on
  the code: the socket has no listener for \<^verbatim>\<open>canvas-action\<close>, so the message changes
  nothing, whatever the action. A client with a rectangle on its canvas that is sent
  \<^verbatim>\<open>clear\<close> keeps the rectangle and its history, where \<open>handleClear\<close> called with
  \<^verbatim>\<open>remote = true\<close> empties the canvas and appends a snapshot.
\<close>

theorem canvas_action_has_no_listener:
  "socket_receive e s (InCanvasAction a) = s
   \<and> socket_receive test_env one_edit (InCanvasAction ''clear'') = one_edit
   \<and> objects (handleClear True test_env one_edit) = []
   \<and> objects one_edit \<noteq> []
   \<and> length (history (handleClear True test_env one_edit)) = length (history one_edit) + 1"
  by (simp add: handleClear_history handleClear_def one_edit_objects Let_def)

section \<open>The role prop\<close>

text \<open>
  \<open>role\<close> is sent with \<^verbatim>\<open>join-room\<close> (line 191) and read nowhere else: a component
  mounted as a viewer has the same handlers and emits the same Operations. What the
  server does with them is outside the repository.
\<close>

lemma role_not_read_by_canvas:
  "emitAdded (e\<lparr>role := r\<rparr>) = emitAdded e"
  "emitModified (e\<lparr>role := r\<rparr>) = emitModified e"
  "emitRemoved (e\<lparr>role := r\<rparr>) = emitRemoved e"
  "assignId (e\<lparr>role := r\<rparr>) = assignId e"
  by (rule ext, rule ext,
      simp add: emitAdded_def emitModified_def emitRemoved_def assignId_def)+

lemma role_not_read_by_add_remove:
  "canvas_add (e\<lparr>role := r\<rparr>) = canvas_add e"
  "canvas_remove (e\<lparr>role := r\<rparr>) = canvas_remove e"
  by (rule ext, rule ext, simp add: canvas_add_def canvas_remove_def role_not_read_by_canvas)+

lemma role_is_only_sent_on_join:
  "addRectangle (e\<lparr>role := r\<rparr>) s a = addRectangle e s a"
  "addCircle (e\<lparr>role := r\<rparr>) s a = addCircle e s a"
  "mouse_down (e\<lparr>role := r\<rparr>) s ev = mouse_down e s ev"
  "path_created (e\<lparr>role := r\<rparr>) s p = path_created e s p"
  "object_transformed (e\<lparr>role := r\<rparr>) s t t' = object_transformed e s t t'"
  by (simp_all add: addRectangle_def addCircle_def mouse_down_def handleEraserClick_def
      handleTextClick_def path_created_def object_transformed_def new_rect_def
      new_circle_def new_text_def handleToolChange_def exitEditing_def
      role_not_read_by_canvas role_not_read_by_add_remove
      split: option.splits)

lemma viewer_client_emits:
  "\<not> isRemote s \<Longrightarrow> role e = ''viewer'' \<Longrightarrow>
     \<exists>r. emitted (addRectangle e s None)
            = emitted s @ [ObjectAdded (roomId e) r, ObjectAdded (roomId e) r]"
  by (simp add: emitAdded_def canvas_add_def assignId_def addRectangle_def
      handleToolChange_def exitEditing_def toObject_def Let_def split: prod.splits)

end
